theory Spec2Isabelle
  imports Main "HOL-Library.AList" "HOL-Library.Sublist"
begin

section \<open>Webhook event codes and transaction states\<close>

text \<open>
  The online lifecycle states are a union of twelve string literals. The webhooks/state
  module names the type \<open>TrustapOnlineTransactionState\<close>, the standalone state-machine
  module declares the same twelve literals as \<open>TrustapTransactionState\<close>; the two unions
  are one type for the compiler, and one datatype here.
\<close>

datatype TrustapOnlineTransactionState =
    created
  | joined
  | rejected
  | paid
  | cancelled
  | cancelled_with_payment
  | payment_refunded
  | tracked
  | delivered
  | complained
  | complaint_period_ended
  | funds_released

type_synonym TrustapTransactionState = TrustapOnlineTransactionState

subsection \<open>webhooks/state.ts\<close>

definition onlineWebhookEventCodes :: "string list" where
  "onlineWebhookEventCodes =
    [''basic_tx.joined'',
     ''basic_tx.rejected'',
     ''basic_tx.cancelled'',
     ''basic_tx.claimed'',
     ''basic_tx.listing_transaction_accepted'',
     ''basic_tx.listing_transaction_rejected'',
     ''basic_tx.payment_failed'',
     ''basic_tx.paid'',
     ''basic_tx.payment_refunded'',
     ''basic_tx.payment_review_flagged'',
     ''basic_tx.payment_review_finished'',
     ''basic_tx.tracking_details_submission_deadline_extended'',
     ''basic_tx.tracked'',
     ''basic_tx.delivered'',
     ''basic_tx.complained'',
     ''basic_tx.complaint_period_ended'',
     ''basic_tx.funds_released'',
     ''basic_tx.funds_refunded'']"

text \<open>The object literal \<open>eventStateMap\<close> local to \<open>mapWebhookToOnlineState\<close>.\<close>

definition onlineEventStateMap :: "(string \<times> TrustapOnlineTransactionState) list" where
  "onlineEventStateMap =
    [(''basic_tx.joined'', joined),
     (''basic_tx.rejected'', rejected),
     (''basic_tx.cancelled'', cancelled),
     (''basic_tx.claimed'', created),
     (''basic_tx.listing_transaction_accepted'', joined),
     (''basic_tx.listing_transaction_rejected'', rejected),
     (''basic_tx.payment_failed'', created),
     (''basic_tx.paid'', paid),
     (''basic_tx.payment_refunded'', payment_refunded),
     (''basic_tx.payment_review_flagged'', paid),
     (''basic_tx.payment_review_finished'', paid),
     (''basic_tx.tracking_details_submission_deadline_extended'', tracked),
     (''basic_tx.tracked'', tracked),
     (''basic_tx.delivered'', delivered),
     (''basic_tx.complained'', complained),
     (''basic_tx.complaint_period_ended'', complaint_period_ended),
     (''basic_tx.funds_released'', funds_released),
     (''basic_tx.funds_refunded'', payment_refunded)]"

text \<open>
  \<open>null\<close> is \<open>None\<close>. The guard \<open>includes\<close> comes first, so the table is only read at
  one of its own keys; \<open>eventStateMap[eventType] ?? null\<close> is the lookup with \<open>None\<close> for
  a missing key.
\<close>

definition mapWebhookToOnlineState :: "string \<Rightarrow> TrustapOnlineTransactionState option" where
  "mapWebhookToOnlineState eventType =
    (if eventType \<notin> set onlineWebhookEventCodes then None
     else (case map_of onlineEventStateMap eventType of
             Some st \<Rightarrow> Some st
           | None \<Rightarrow> None))"

subsection \<open>The standalone state-machine module\<close>

definition trustapWebhookEventCodes :: "string list" where
  "trustapWebhookEventCodes =
    [''basic_tx.joined'',
     ''basic_tx.rejected'',
     ''basic_tx.cancelled'',
     ''basic_tx.claimed'',
     ''basic_tx.listing_transaction_accepted'',
     ''basic_tx.listing_transaction_rejected'',
     ''basic_tx.payment_failed'',
     ''basic_tx.paid'',
     ''basic_tx.payment_refunded'',
     ''basic_tx.payment_review_flagged'',
     ''basic_tx.payment_review_finished'',
     ''basic_tx.tracking_details_submission_deadline_extended'',
     ''basic_tx.tracked'',
     ''basic_tx.delivered'',
     ''basic_tx.complained'',
     ''basic_tx.complaint_period_ended'',
     ''basic_tx.funds_released'',
     ''basic_tx.funds_refunded'']"

definition trustapEventStateMap :: "(string \<times> TrustapTransactionState) list" where
  "trustapEventStateMap =
    [(''basic_tx.joined'', joined),
     (''basic_tx.rejected'', rejected),
     (''basic_tx.cancelled'', cancelled),
     (''basic_tx.claimed'', created),
     (''basic_tx.listing_transaction_accepted'', joined),
     (''basic_tx.listing_transaction_rejected'', rejected),
     (''basic_tx.payment_failed'', created),
     (''basic_tx.paid'', paid),
     (''basic_tx.payment_refunded'', payment_refunded),
     (''basic_tx.payment_review_flagged'', paid),
     (''basic_tx.payment_review_finished'', paid),
     (''basic_tx.tracking_details_submission_deadline_extended'', tracked),
     (''basic_tx.tracked'', tracked),
     (''basic_tx.delivered'', delivered),
     (''basic_tx.complained'', complained),
     (''basic_tx.complaint_period_ended'', complaint_period_ended),
     (''basic_tx.funds_released'', funds_released),
     (''basic_tx.funds_refunded'', payment_refunded)]"

definition mapWebhookToTrustapState :: "string \<Rightarrow> TrustapTransactionState option" where
  "mapWebhookToTrustapState eventType =
    (if eventType \<notin> set trustapWebhookEventCodes then None
     else (case map_of trustapEventStateMap eventType of
             Some st \<Rightarrow> Some st
           | None \<Rightarrow> None))"

section \<open>JavaScript values and strings\<close>

text \<open>
  A string is a list of code units; \<open>char\<close> holds the code units up to \<open>0xFF\<close>. The values
  the dispatcher inspects are the primitives and objects. All an object contributes is
  its own enumerable properties, in insertion order, and the way it answers the three
  tests of \<open>toPathParamSegment\<close>: a \<open>Date\<close> (with the result of \<open>toISOString()\<close>, or none
  for an invalid date, on which \<open>toISOString()\<close> raises a \<open>RangeError\<close>), an object whose
  \<open>toString\<close> is a function other than \<open>Object.prototype.toString\<close> (with the string it
  returns), or any other object. A function is given by its own properties, a symbol by
  a number. The properties of a value are looked up among its own properties.

  A number is a double, and all the code does with one is to print it with \<open>String\<close> and
  to test whether it is falsy. \<open>String\<close> on a number is a primitive of the language, which
  this theory does not compute: a number is given by the string \<open>String\<close> prints for it
  (\<open>42\<close>, \<open>1.5\<close>, \<open>1e+21\<close>, \<open>NaN\<close>, \<open>Infinity\<close>). Two numbers with the same print are the same
  number, or are \<open>0\<close> and \<open>-0\<close>, which the code does not tell apart. The falsy numbers are
  those printed \<open>0\<close> and \<open>NaN\<close>. A bigint is an integer, printed in decimal.
\<close>

datatype objkind = Plain | DateObj "string option" | Custom string

datatype jsval =
    JUndefined
  | JNull
  | JBool bool
  | JNum string
  | JBigInt int
  | JStr string
  | JObj objkind "(string \<times> jsval) list"
  | JFunction "(string \<times> jsval) list"
  | JSymbol nat

text \<open>
  The errors raised: \<open>TypeError\<close> and \<open>Error\<close> by the code, with their messages;
  \<open>RangeError\<close> by \<open>toISOString\<close> and \<open>InvalidCharacterError\<close> by \<open>btoa\<close>, whose messages
  are the runtime's.
\<close>

datatype error = TypeError string | RangeError | InvalidCharacterError | Error string

fun typeof :: "jsval \<Rightarrow> string" where
  "typeof JUndefined = ''undefined''"
| "typeof JNull = ''object''"
| "typeof (JBool b) = ''boolean''"
| "typeof (JNum n) = ''number''"
| "typeof (JBigInt n) = ''bigint''"
| "typeof (JStr s) = ''string''"
| "typeof (JObj kind props) = ''object''"
| "typeof (JFunction props) = ''function''"
| "typeof (JSymbol n) = ''symbol''"

fun truthy :: "jsval \<Rightarrow> bool" where
  "truthy JUndefined = False"
| "truthy JNull = False"
| "truthy (JBool b) = b"
| "truthy (JNum n) = (n \<noteq> ''0'' \<and> n \<noteq> ''NaN'')"
| "truthy (JBigInt n) = (n \<noteq> 0)"
| "truthy (JStr s) = (s \<noteq> [])"
| "truthy (JObj kind props) = True"
| "truthy (JFunction props) = True"
| "truthy (JSymbol n) = True"

definition digitChar :: "nat \<Rightarrow> char" where
  "digitChar d = ''0123456789'' ! d"

function showNat :: "nat \<Rightarrow> string" where
  "showNat n = (if n < 10 then [digitChar n] else showNat (n div 10) @ [digitChar (n mod 10)])"
  by pat_completeness auto
termination
  by (relation "measure id") auto

declare showNat.simps [simp del]

definition showInt :: "int \<Rightarrow> string" where
  "showInt i = (if i < 0 then CHR ''-'' # showNat (nat (- i)) else showNat (nat i))"

text \<open>
  \<open>Object.prototype.hasOwnProperty.call(v, k)\<close> and the read \<open>v[k]\<close>. A string has its
  length and its code units as own properties; the other primitives have none.
\<close>

fun ownProperty :: "jsval \<Rightarrow> string \<Rightarrow> jsval option" where
  "ownProperty (JObj kind props) k = map_of props k"
| "ownProperty (JFunction props) k = map_of props k"
| "ownProperty (JStr s) k =
    (if k = ''length'' then Some (JNum (showNat (length s)))
     else (case find (\<lambda>i. showNat i = k) [0..<length s] of
             Some i \<Rightarrow> Some (JStr [s ! i])
           | None \<Rightarrow> None))"
| "ownProperty v k = None"

definition hasOwnProperty :: "jsval \<Rightarrow> string \<Rightarrow> bool" where
  "hasOwnProperty v k = (ownProperty v k \<noteq> None)"

definition getProperty :: "jsval \<Rightarrow> string \<Rightarrow> jsval" where
  "getProperty v k = (case ownProperty v k of Some x \<Rightarrow> x | None \<Rightarrow> JUndefined)"

text \<open>The properties an object spread \<open>{...v}\<close> copies; the code spreads objects only.\<close>

fun spread :: "jsval \<Rightarrow> (string \<times> jsval) list" where
  "spread (JObj kind props) = props"
| "spread v = []"

definition startsWith :: "string \<Rightarrow> string \<Rightarrow> bool" where
  "startsWith s p = (take (length p) s = p)"

definition endsWith :: "string \<Rightarrow> string \<Rightarrow> bool" where
  "endsWith s e = (length e \<le> length s \<and> drop (length s - length e) s = e)"

text \<open>
  \<open>toUpperCase\<close> and \<open>toLowerCase\<close> on the letters of ASCII; the code units above
  \<open>0x7F\<close> are left as they are.
\<close>

definition toUpperCase :: "string \<Rightarrow> string" where
  "toUpperCase s =
    map (\<lambda>c. case map_of (zip ''abcdefghijklmnopqrstuvwxyz'' ''ABCDEFGHIJKLMNOPQRSTUVWXYZ'') c of
               Some u \<Rightarrow> u
             | None \<Rightarrow> c) s"

definition toLowerCase :: "string \<Rightarrow> string" where
  "toLowerCase s =
    map (\<lambda>c. case map_of (zip ''ABCDEFGHIJKLMNOPQRSTUVWXYZ'' ''abcdefghijklmnopqrstuvwxyz'') c of
               Some l \<Rightarrow> l
             | None \<Rightarrow> c) s"

definition isWhiteSpace :: "char \<Rightarrow> bool" where
  "isWhiteSpace c = (c \<in> set [CHR 0x09, CHR 0x0A, CHR 0x0B, CHR 0x0C, CHR 0x0D, CHR 0x20, CHR 0xA0])"

definition trim :: "string \<Rightarrow> string" where
  "trim s = rev (dropWhile isWhiteSpace (rev (dropWhile isWhiteSpace s)))"

subsection \<open>UTF-8, percent-encoding and Base64\<close>

definition utf8Char :: "char \<Rightarrow> nat list" where
  "utf8Char c =
    (let n = of_char c in
     if n < 128 then [n] else [192 + n div 64, 128 + n mod 64])"

definition uriUnreserved :: "char \<Rightarrow> bool" where
  "uriUnreserved c =
    (c \<in> set (''ABCDEFGHIJKLMNOPQRSTUVWXYZabcdefghijklmnopqrstuvwxyz0123456789-_.!~*()''
               @ [CHR 0x27]))"

definition pctByte :: "nat \<Rightarrow> string" where
  "pctByte b = [CHR ''%'', ''0123456789ABCDEF'' ! (b div 16), ''0123456789ABCDEF'' ! (b mod 16)]"

definition encodeURIComponent :: "string \<Rightarrow> string" where
  "encodeURIComponent s =
    concat (map (\<lambda>c. if uriUnreserved c then [c] else concat (map pctByte (utf8Char c))) s)"

definition base64Alphabet :: string where
  "base64Alphabet = ''ABCDEFGHIJKLMNOPQRSTUVWXYZabcdefghijklmnopqrstuvwxyz0123456789+/''"

fun base64 :: "nat list \<Rightarrow> string" where
  "base64 [] = []"
| "base64 [a] =
    [base64Alphabet ! (a div 4), base64Alphabet ! ((a mod 4) * 16), CHR ''='', CHR ''='']"
| "base64 [a, b] =
    [base64Alphabet ! (a div 4), base64Alphabet ! ((a mod 4) * 16 + b div 16),
     base64Alphabet ! ((b mod 16) * 4), CHR ''='']"
| "base64 (a # b # c # bytes) =
    [base64Alphabet ! (a div 4), base64Alphabet ! ((a mod 4) * 16 + b div 16),
     base64Alphabet ! ((b mod 16) * 4 + c div 64), base64Alphabet ! (c mod 64)]
    @ base64 bytes"

text \<open>
  The credentials are strings of any code units, which \<open>btoa\<close> tells apart: a credential
  is the list of its UTF-16 code units, numbers below \<open>0x10000\<close>. \<open>codeUnits\<close> gives the code
  units of a string of the other kind.
\<close>

type_synonym codeUnits = "nat list"

definition codeUnits :: "string \<Rightarrow> codeUnits" where
  "codeUnits s = map of_char s"

text \<open>
  \<open>btoa\<close> takes each code unit as one byte, and raises an \<open>InvalidCharacterError\<close> on a
  string with a code unit above \<open>0xFF\<close>.
\<close>

definition btoa :: "codeUnits \<Rightarrow> error + string" where
  "btoa s = (if \<exists>u \<in> set s. 255 < u then Inl InvalidCharacterError else Inr (base64 s))"

text \<open>
  The UTF-8 bytes of a string, as \<open>Buffer.from(s)\<close> encodes it: a surrogate pair is one
  code point of four bytes, and a surrogate without its pair is replaced by \<open>U+FFFD\<close>.
\<close>

fun utf8 :: "codeUnits \<Rightarrow> nat list" where
  "utf8 [] = []"
| "utf8 (u # us) =
    (if u < 0x80 then u # utf8 us
     else if u < 0x800 then [0xC0 + u div 64, 0x80 + u mod 64] @ utf8 us
     else if 0xD800 \<le> u \<and> u < 0xDC00 then
       (case us of
          [] \<Rightarrow> [0xEF, 0xBF, 0xBD]
        | l # rest \<Rightarrow>
            if 0xDC00 \<le> l \<and> l < 0xE000 then
              (let cp = 0x10000 + (u - 0xD800) * 1024 + (l - 0xDC00)
               in [0xF0 + cp div 262144, 0x80 + (cp div 4096) mod 64,
                   0x80 + (cp div 64) mod 64, 0x80 + cp mod 64] @ utf8 rest)
            else [0xEF, 0xBF, 0xBD] @ utf8 us)
     else if 0xDC00 \<le> u \<and> u < 0xE000 then [0xEF, 0xBF, 0xBD] @ utf8 us
     else [0xE0 + u div 4096, 0x80 + (u div 64) mod 64, 0x80 + u mod 64] @ utf8 us)"

text \<open>\<open>Buffer.from(s).toString("base64")\<close>\<close>

definition bufferBase64 :: "codeUnits \<Rightarrow> string" where
  "bufferBase64 s = base64 (utf8 s)"

section \<open>Path Template Compiler\<close>

fun removeTrailingSlash_rev :: "string \<Rightarrow> string" where
  "removeTrailingSlash_rev [] = []"
| "removeTrailingSlash_rev (c # cs) =
    (if c = CHR ''/'' then removeTrailingSlash_rev cs else c # cs)"

text \<open>The loop of \<open>removeTrailingSlash\<close> walks down from the end; here on the reversed string.\<close>

definition removeTrailingSlash :: "string \<Rightarrow> string" where
  "removeTrailingSlash v = rev (removeTrailingSlash_rev (rev v))"

definition normalizeBasePath :: "string option \<Rightarrow> string" where
  "normalizeBasePath basePath =
    (case basePath of
       None \<Rightarrow> []
     | Some bp \<Rightarrow>
         if bp = [] then []
         else
           let trimmed = trim bp in
           if trimmed = [] \<or> trimmed = ''/'' then []
           else
             let withLeadingSlash = (if startsWith trimmed ''/'' then trimmed else CHR ''/'' # trimmed)
             in removeTrailingSlash withLeadingSlash)"

text \<open>\<open>replaceAll(/\/+/g, "/")\<close>: every run of slashes becomes one slash.\<close>

fun collapseSlashes :: "string \<Rightarrow> string" where
  "collapseSlashes (a # b # cs) =
    (if a = CHR ''/'' \<and> b = CHR ''/'' then collapseSlashes (b # cs)
     else a # collapseSlashes (b # cs))"
| "collapseSlashes cs = cs"

definition joinPaths :: "string \<Rightarrow> string \<Rightarrow> string" where
  "joinPaths basePath path =
    (let sanitizedBase = normalizeBasePath (Some basePath);
         hasLeadingSlash = startsWith path ''/'';
         relative = (if hasLeadingSlash then drop 1 path else path)
     in if sanitizedBase = [] then (if hasLeadingSlash then path else CHR ''/'' # relative)
        else if relative = [] then sanitizedBase
        else collapseSlashes (sanitizedBase @ ''/'' @ relative))"

fun toPathParamSegment :: "string \<Rightarrow> jsval \<Rightarrow> error + string" where
  "toPathParamSegment key (JStr s) = Inr s"
| "toPathParamSegment key (JNum n) = Inr n"
| "toPathParamSegment key (JBool b) = Inr (if b then ''true'' else ''false'')"
| "toPathParamSegment key (JBigInt n) = Inr (showInt n)"
| "toPathParamSegment key (JObj (DateObj stamp) props) =
    (case stamp of
       Some t \<Rightarrow> Inr t
     | None \<Rightarrow> Inl RangeError)"
| "toPathParamSegment key (JObj (Custom str) props) = Inr str"
| "toPathParamSegment key v =
    Inl (TypeError (''Unsupported path parameter '' @ [CHR 0x22] @ key @ [CHR 0x22]
                    @ '' of type '' @ typeof v))"

text \<open>
  The regular expression \<open>\{([^{}]+)\}\<close> tried at the head of a string: an opening brace,
  the longest run of characters other than braces, which must not be empty, and a closing
  brace. The result is the captured name and what follows the match.
\<close>

definition placeholderChar :: "char \<Rightarrow> bool" where
  "placeholderChar c = (c \<noteq> CHR ''{'' \<and> c \<noteq> CHR ''}'')"

definition matchPlaceholder :: "string \<Rightarrow> (string \<times> string) option" where
  "matchPlaceholder s =
    (case s of
       [] \<Rightarrow> None
     | c # cs \<Rightarrow>
         if c = CHR ''{'' then
           (case dropWhile placeholderChar cs of
              [] \<Rightarrow> None
            | r # rest \<Rightarrow>
                if r = CHR ''}'' \<and> takeWhile placeholderChar cs \<noteq> []
                then Some (takeWhile placeholderChar cs, rest)
                else None)
         else None)"

lemma matchPlaceholder_shorter:
  "matchPlaceholder s = Some (k, rest) \<Longrightarrow> length rest < length s"
proof -
  assume m: "matchPlaceholder s = Some (k, rest)"
  then obtain c cs where s: "s = c # cs"
    by (cases s) (auto simp: matchPlaceholder_def)
  from m s obtain r where "dropWhile placeholderChar cs = r # rest"
    by (auto simp: matchPlaceholder_def split: if_splits list.splits)
  then have "length rest < length (dropWhile placeholderChar cs)"
    by simp
  also have "\<dots> \<le> length cs"
    by (rule length_dropWhile_le)
  finally show ?thesis
    using s by simp
qed

text \<open>\<open>[...path.matchAll(/\{([^{}]+)\}/g)].map((match) => match[1])\<close>\<close>

function paramKeys :: "string \<Rightarrow> string list" where
  "paramKeys [] = []"
| "paramKeys (c # cs) =
    (case matchPlaceholder (c # cs) of
       Some (k, rest) \<Rightarrow> k # paramKeys rest
     | None \<Rightarrow> paramKeys cs)"
  by pat_completeness auto
termination
  by (relation "measure length") (auto dest: matchPlaceholder_shorter)

text \<open>
  \<open>path.split(/\{[^{}]+\}/)\<close>; the first argument is the part read so far since the last
  match.
\<close>

function splitTemplate :: "string \<Rightarrow> string \<Rightarrow> string list" where
  "splitTemplate cur [] = [cur]"
| "splitTemplate cur (c # cs) =
    (case matchPlaceholder (c # cs) of
       Some (k, rest) \<Rightarrow> cur # splitTemplate [] rest
     | None \<Rightarrow> splitTemplate (cur @ [c]) cs)"
  by pat_completeness auto
termination
  by (relation "measure (\<lambda>(cur, s). length s)") (auto dest: matchPlaceholder_shorter)

text \<open>One turn of the loop of \<open>applyParams\<close>: what is appended for the slot \<open>key\<close>.\<close>

definition paramSlot :: "jsval \<Rightarrow> string \<Rightarrow> error + string" where
  "paramSlot pathParams key =
    (if key \<noteq> [] \<and> hasOwnProperty pathParams key then
       (let rawValue = getProperty pathParams key in
        if rawValue \<noteq> JUndefined \<and> rawValue \<noteq> JNull
        then (case toPathParamSegment key rawValue of
                Inl e \<Rightarrow> Inl e
              | Inr seg \<Rightarrow> Inr (encodeURIComponent seg))
        else Inr (''{'' @ key @ ''}''))
     else Inr (''{'' @ key @ ''}''))"

text \<open>
  The loop \<open>for (const [i, key] of paramKeys.entries())\<close>. The third argument holds the
  parts from index \<open>i + 1\<close> on, so that \<open>parts[i + 1] ?? ""\<close> is its head, or the empty
  string when it is empty. A raise in \<open>toPathParamSegment\<close> ends the loop.
\<close>

fun interpolate :: "jsval \<Rightarrow> string list \<Rightarrow> string list \<Rightarrow> string \<Rightarrow> error + string" where
  "interpolate pathParams [] ps result = Inr result"
| "interpolate pathParams (key # keys) ps result =
    (case paramSlot pathParams key of
       Inl e \<Rightarrow> Inl e
     | Inr seg \<Rightarrow>
         interpolate pathParams keys (tl ps)
           (result @ seg @ (case ps of [] \<Rightarrow> [] | p # _ \<Rightarrow> p)))"

text \<open>
  \<open>compilePathTemplate path\<close> is the compiled function \<open>applyParams\<close>; a call without
  argument passes \<open>JUndefined\<close>.
\<close>

definition compilePathTemplate :: "string \<Rightarrow> jsval \<Rightarrow> error + string" where
  "compilePathTemplate path =
    (if paramKeys path = [] then (\<lambda>pathParams. Inr path)
     else
       (let parts = splitTemplate [] path in
        (\<lambda>pathParams.
           if \<not> truthy pathParams then Inr path
           else interpolate pathParams (paramKeys path) (tl parts)
                  (case parts of [] \<Rightarrow> [] | p # _ \<Rightarrow> p))))"

section \<open>Request Option Normalizer\<close>

definition deprecationWarning :: string where
  "deprecationWarning =
    ''[Trustap SDK] Deprecation warning: Using { query: ... } is deprecated. ''
    @ ''Please use { params: { query: ... } } instead. ''
    @ ''Legacy format will be removed in a future major version.''"

text \<open>
  The result is the list of messages sent to \<open>console.warn\<close> (the console has a \<open>warn\<close>
  function) and the returned value. An object literal with a spread is a plain object:
  the copied properties, then the property written after them (\<open>AList.update\<close>
  overwrites in place or appends, as the literal does).
\<close>

definition normalizeRequestOptions :: "jsval \<Rightarrow> string list \<times> jsval" where
  "normalizeRequestOptions options =
    (if \<not> truthy options \<or> typeof options \<noteq> ''object'' then ([], options)
     else
       let original = options;
           params =
             (if truthy (getProperty original ''params'')
                 \<and> typeof (getProperty original ''params'') = ''object''
              then Some (spread (getProperty original ''params''))
              else None)
       in
       if hasOwnProperty original ''query'' then
         let query = getProperty original ''query'';
             rest = AList.delete ''query'' (spread original);
             nextParams = (case params of Some p \<Rightarrow> p | None \<Rightarrow> []);
             nextParams' =
               (if getProperty (JObj Plain nextParams) ''query'' = JUndefined
                then AList.update ''query'' query nextParams
                else nextParams)
         in ([deprecationWarning], JObj Plain (AList.update ''params'' (JObj Plain nextParams') rest))
       else
         (case params of
            Some p \<Rightarrow> ([], JObj Plain (AList.update ''params'' (JObj Plain p) (spread original)))
          | None \<Rightarrow> ([], options)))"

text \<open>\<open>undefined\<close> is \<open>None\<close>.\<close>

definition getParams :: "jsval \<Rightarrow> jsval option" where
  "getParams options =
    (if \<not> truthy options \<or> typeof options \<noteq> ''object'' then None
     else
       let params = getProperty options ''params'' in
       if \<not> truthy params \<or> typeof params \<noteq> ''object'' then None
       else Some params)"

section \<open>Security Map lookup\<close>

text \<open>
  A compiled pattern holds a \<open>RegExp\<close> and the method table of its path. The lookup only
  calls \<open>regex.test(pathname)\<close>, on a regular expression without the global flag, so the
  regular expression is the predicate it computes. \<open>exact\<close> is a \<open>Map\<close> of \<open>Map\<close>s; a
  method table of a pattern is the record of the security map, read at own properties.
\<close>

record pattern =
  regex :: "string \<Rightarrow> bool"
  methods :: "string \<rightharpoonup> string list"

record compiled =
  exact :: "string \<rightharpoonup> (string \<rightharpoonup> string list)"
  patterns :: "pattern list"

text \<open>The loop \<open>for (const { regex, methods } of compiled.patterns)\<close> and the final return.\<close>

fun scanPatterns :: "pattern list \<Rightarrow> string \<Rightarrow> string \<Rightarrow> string list" where
  "scanPatterns [] pathname method = []"
| "scanPatterns (p # ps) pathname method =
    (if regex p pathname then
       (case methods p method of
          Some match \<Rightarrow> match
        | None \<Rightarrow> scanPatterns ps pathname method)
     else scanPatterns ps pathname method)"

definition resolveSecuritySchemes :: "compiled \<Rightarrow> string \<Rightarrow> string \<Rightarrow> string list" where
  "resolveSecuritySchemes c pathname method =
    (case exact c pathname of
       Some exactMethods \<Rightarrow>
         (case exactMethods method of
            Some schemes \<Rightarrow> schemes
          | None \<Rightarrow> scanPatterns (patterns c) pathname method)
     | None \<Rightarrow> scanPatterns (patterns c) pathname method)"

section \<open>Authentication Resolver\<close>

datatype authStrategy = Basic | OAuth2 | Auto

record basicAuth =
  username :: codeUnits
  password :: "codeUnits option"

text \<open>
  The three ways of \<open>resolveBasicToken\<close> through the runtime: \<open>btoa\<close> is defined; it is
  not and \<open>globalThis.Buffer\<close> is; neither is.
\<close>

datatype runtime = WithBtoa | WithBuffer | WithoutBase64

text \<open>
  What the middleware of \<open>createTrustapClientCore\<close> closes over. \<open>basePath\<close> is the base
  path \<open>inferBaseConfig\<close> resolved. \<open>getAccessToken\<close> is \<open>None\<close> when no supplier is configured,
  and otherwise how the awaited call settles: a rejection or a token.
\<close>

record core =
  basePath :: string
  basicAuth :: "basicAuth option"
  getAccessToken :: "(error + string) option"
  authOverrides :: "(string \<rightharpoonup> authStrategy) option"
  compiledSecurityMap :: compiled
  runtimeEnv :: runtime

text \<open>
  The variable \<open>cached\<close> of the closure of \<open>resolveBasicToken\<close>, and a counter of the
  calls of an encoding routine (\<open>btoa\<close> or \<open>Buffer.from(...).toString("base64")\<close>), which
  the code does not hold. A call of the resolver returns the token or the error \<open>btoa\<close>
  raised, and the state. The assignment to \<open>cached\<close> comes after the call of the encoding
  routine: when that raises, \<open>cached\<close> stays as it was.
\<close>

record tokenState =
  cached :: "string option"
  encodings :: nat

definition initialTokenState :: tokenState where
  "initialTokenState = \<lparr>cached = None, encodings = 0\<rparr>"

definition resolveBasicToken ::
  "runtime \<Rightarrow> basicAuth \<Rightarrow> tokenState \<Rightarrow> (error + string) \<times> tokenState" where
  "resolveBasicToken rt auth st =
    (case cached st of
       Some token \<Rightarrow> (Inr token, st)
     | None \<Rightarrow>
         let user = username auth;
             pass = (case password auth of Some p \<Rightarrow> p | None \<Rightarrow> [])
         in (case rt of
               WithBtoa \<Rightarrow>
                 (case btoa (user @ codeUnits '':'' @ pass) of
                    Inl e \<Rightarrow> (Inl e, st\<lparr>encodings := Suc (encodings st)\<rparr>)
                  | Inr token \<Rightarrow>
                      (Inr token, \<lparr>cached = Some token, encodings = Suc (encodings st)\<rparr>))
             | WithBuffer \<Rightarrow>
                 (Inr (bufferBase64 (user @ codeUnits '':'' @ pass)),
                  \<lparr>cached = Some (bufferBase64 (user @ codeUnits '':'' @ pass)),
                   encodings = Suc (encodings st)\<rparr>)
             | WithoutBase64 \<Rightarrow> (Inr [], \<lparr>cached = Some [], encodings = encodings st\<rparr>)))"

text \<open>
  The regular expression \<open>/^\/api\/v\d+/i\<close>: \<open>None\<close> when it does not match, and otherwise
  the string with the match removed.
\<close>

definition isDigit :: "char \<Rightarrow> bool" where
  "isDigit c = (c \<in> set ''0123456789'')"

definition stripApiVersion :: "string \<Rightarrow> string option" where
  "stripApiVersion s =
    (if toLowerCase (take 6 s) = ''/api/v'' \<and> takeWhile isDigit (drop 6 s) \<noteq> []
     then Some (dropWhile isDigit (drop 6 s))
     else None)"

definition stripBasePath :: "string \<Rightarrow> string \<Rightarrow> string" where
  "stripBasePath pathname bp =
    (let normalized =
           (if bp \<noteq> [] \<and> startsWith pathname bp then
              (if drop (length bp) pathname = [] then ''/'' else drop (length bp) pathname)
            else
              (case stripApiVersion pathname of
                 Some r \<Rightarrow> (if r = [] then ''/'' else r)
               | None \<Rightarrow> pathname));
         normalized' = (if \<not> startsWith normalized ''/'' then CHR ''/'' # normalized else normalized)
     in if normalized' = [] then ''/'' else normalized')"

text \<open>
  A request: the pathname of its URL (which the code reads through \<open>new URL(request.url)\<close>),
  its method and its headers; the record's extension stands for everything else the
  request carries. \<open>Headers\<close> keeps its names in lower case: the list is keyed by them.
  A header value is kept as it is given.
\<close>

record request =
  url_pathname :: string
  request_method :: string
  headers :: "(string \<times> string) list"

definition headersHas :: "(string \<times> string) list \<Rightarrow> string \<Rightarrow> bool" where
  "headersHas hs name = (map_of hs (toLowerCase name) \<noteq> None)"

definition headersSet :: "(string \<times> string) list \<Rightarrow> string \<Rightarrow> string \<Rightarrow> (string \<times> string) list" where
  "headersSet hs name v = AList.update (toLowerCase name) v hs"

text \<open>\<open>authOverrides ? authOverrides[pathname] ?? authOverrides[fullPathname] : undefined\<close>\<close>

definition overrideFor :: "core \<Rightarrow> string \<Rightarrow> string \<Rightarrow> authStrategy option" where
  "overrideFor c pathname fullPathname =
    (case authOverrides c of
       Some ov \<Rightarrow> (case ov pathname of Some a \<Rightarrow> Some a | None \<Rightarrow> ov fullPathname)
     | None \<Rightarrow> None)"

text \<open>The value of the variable \<open>shouldUseBasic\<close> when the credentials are looked at.\<close>

definition shouldUseBasic :: "core \<Rightarrow> authStrategy option \<Rightarrow> string \<Rightarrow> string \<Rightarrow> bool" where
  "shouldUseBasic c override pathname method =
    (if override = Some Basic then True
     else if override \<noteq> Some OAuth2 then
       (let declaredSchemes = resolveSecuritySchemes (compiledSecurityMap c) pathname method;
            allowsApiKey = (''APIKey'' \<in> set declaredSchemes);
            isChargeEndpoint = (endsWith pathname ''/charge'' \<or> endsWith pathname ''/p2p/charge'');
            isGuestUsersEndpoint = endsWith pathname ''/guest_users''
        in (if allowsApiKey then True else False) \<or> isChargeEndpoint \<or> isGuestUsersEndpoint)
     else False)"

text \<open>
  \<open>onRequest\<close> of the middleware: the returned request, or the error raised by the token
  resolver or the rejection of the token supplier, and the state of the Basic token
  cache. \<open>new Request(request, { headers })\<close> is the request with its headers replaced.
\<close>

definition onRequest ::
  "core \<Rightarrow> tokenState \<Rightarrow> 'a request_scheme \<Rightarrow> (error + 'a request_scheme) \<times> tokenState" where
  "onRequest c st request =
    (let hs = headers request in
     if \<not> headersHas hs ''Authorization'' then
       (let fullPathname = url_pathname request;
            pathname = stripBasePath fullPathname (basePath c);
            method = toUpperCase (request_method request);
            override = overrideFor c pathname fullPathname
        in
        if shouldUseBasic c override pathname method \<and> basicAuth c \<noteq> None then
          (case resolveBasicToken (runtimeEnv c) (the (basicAuth c)) st of
             (Inl e, st') \<Rightarrow> (Inl e, st')
           | (Inr token, st') \<Rightarrow>
               (if token \<noteq> []
                then (Inr (request\<lparr>headers := headersSet hs ''Authorization'' (''Basic '' @ token)\<rparr>), st')
                else (Inr (request\<lparr>headers := hs\<rparr>), st')))
        else
          (case getAccessToken c of
             Some (Inl e) \<Rightarrow> (Inl e, st)
           | Some (Inr token) \<Rightarrow>
               (if token \<noteq> []
                then (Inr (request\<lparr>headers := headersSet hs ''Authorization'' (''Bearer '' @ token)\<rparr>), st)
                else (Inr (request\<lparr>headers := hs\<rparr>), st))
           | None \<Rightarrow> (Inr (request\<lparr>headers := hs\<rparr>), st)))
     else (Inr (request\<lparr>headers := hs\<rparr>), st))"

text \<open>The middleware exists when Basic credentials or a token supplier are configured.\<close>

definition authHeaderMiddleware ::
  "core \<Rightarrow> (tokenState \<Rightarrow> 'a request_scheme \<Rightarrow> (error + 'a request_scheme) \<times> tokenState) option" where
  "authHeaderMiddleware c =
    (if basicAuth c \<noteq> None \<or> getAccessToken c \<noteq> None then Some (onRequest c) else None)"

section \<open>Operation Dispatcher\<close>

text \<open>An entry of the operation map, \<open>{ path, method }\<close>; the field \<open>method\<close> is \<open>op_method\<close> here.\<close>

record operationMapping =
  path :: string
  op_method :: string

datatype HttpMethod = GET | POST | PUT | PATCH | DELETE | HEAD | OPTIONS

text \<open>
  The transport is a collaborator: a call \<open>client.VERB(finalPath, optionsToSend)\<close> is the
  value the handler returns.
\<close>

datatype transportCall = TransportCall HttpMethod string jsval

text \<open>What the closure \<open>handler\<close> captures when the \<open>get\<close> trap builds it.\<close>

record handler =
  opId :: string
  mapping :: operationMapping
  upper :: string
  applyParams :: "jsval \<Rightarrow> error + string"

text \<open>\<open>params?.path\<close> for \<open>params = getParams(optionsToSend)\<close>\<close>

definition pathParamsOf :: "jsval \<Rightarrow> jsval" where
  "pathParamsOf optionsToSend =
    (case getParams optionsToSend of
       Some params \<Rightarrow> getProperty params ''path''
     | None \<Rightarrow> JUndefined)"

text \<open>
  A call of the handler: the warnings of the normalizer, and the transport call or the
  error raised.
\<close>

definition invokeHandler :: "handler \<Rightarrow> jsval \<Rightarrow> string list \<times> (error + transportCall)" where
  "invokeHandler h requestOptions =
    (case normalizeRequestOptions requestOptions of
       (warnings, optionsToSend) \<Rightarrow>
         (case applyParams h (pathParamsOf optionsToSend) of
            Inl e \<Rightarrow> (warnings, Inl e)
          | Inr finalPath \<Rightarrow>
              (warnings,
               if upper h = ''GET'' then Inr (TransportCall GET finalPath optionsToSend)
               else if upper h = ''POST'' then Inr (TransportCall POST finalPath optionsToSend)
               else if upper h = ''PUT'' then Inr (TransportCall PUT finalPath optionsToSend)
               else if upper h = ''PATCH'' then Inr (TransportCall PATCH finalPath optionsToSend)
               else if upper h = ''DELETE'' then Inr (TransportCall DELETE finalPath optionsToSend)
               else if upper h = ''HEAD'' then Inr (TransportCall HEAD finalPath optionsToSend)
               else if upper h = ''OPTIONS'' then Inr (TransportCall OPTIONS finalPath optionsToSend)
               else Inl (Error (''Unsupported method '' @ op_method (mapping h)
                                @ '' for '' @ opId h)))))"

text \<open>
  The proxy target is the object \<open>{}\<close>. Its own properties are a map from property keys
  to values: a handler the trap stored, or a value put there from outside (the keys of
  the path-based client and \<open>raw\<close>, through the \<open>set\<close> trap). It inherits the properties
  of \<open>Object.prototype\<close>, which \<open>Reflect.has\<close> and \<open>Reflect.get\<close> find as well; their
  values, built-in functions (and the prototype itself under \<open>__proto__\<close>), are
  \<open>Inherited\<close> with the name. \<open>Object.prototype\<close> has no property keyed by a symbol.
  \<open>undefined\<close> is \<open>Foreign JUndefined\<close>.
\<close>

datatype propertyKey = StringKey string | SymbolKey nat

datatype propertyValue = HandlerFn handler | Foreign jsval | Inherited string

definition objectPrototypeNames :: "string list" where
  "objectPrototypeNames =
    [''constructor'', ''__defineGetter__'', ''__defineSetter__'', ''hasOwnProperty'',
     ''__lookupGetter__'', ''__lookupSetter__'', ''isPrototypeOf'', ''propertyIsEnumerable'',
     ''toString'', ''valueOf'', ''__proto__'', ''toLocaleString'']"

definition inherited :: "propertyKey \<Rightarrow> bool" where
  "inherited prop =
    (case prop of
       StringKey name \<Rightarrow> name \<in> set objectPrototypeNames
     | SymbolKey n \<Rightarrow> False)"

definition reflectHas :: "(propertyKey \<rightharpoonup> propertyValue) \<Rightarrow> propertyKey \<Rightarrow> bool" where
  "reflectHas target prop = (target prop \<noteq> None \<or> inherited prop)"

definition reflectGet :: "(propertyKey \<rightharpoonup> propertyValue) \<Rightarrow> propertyKey \<Rightarrow> propertyValue" where
  "reflectGet target prop =
    (case target prop of
       Some v \<Rightarrow> v
     | None \<Rightarrow>
         (case prop of
            StringKey name \<Rightarrow>
              if name \<in> set objectPrototypeNames then Inherited name else Foreign JUndefined
          | SymbolKey n \<Rightarrow> Foreign JUndefined))"

text \<open>
  The \<open>get\<close> trap returns the value read and the own properties of the target, which it
  extends when it builds a handler; it has no raising statement. The first two
  arguments are the operation map of the dependencies, read at its own entries (a name
  it would inherit is one the target inherits too, and the trap has returned before it
  reads the map), and the resolved base path.
\<close>

definition proxyGet ::
  "(string \<rightharpoonup> operationMapping) \<Rightarrow> string \<Rightarrow> (propertyKey \<rightharpoonup> propertyValue) \<Rightarrow> propertyKey
   \<Rightarrow> propertyValue \<times> (propertyKey \<rightharpoonup> propertyValue)" where
  "proxyGet operationIdToPath bp target prop =
    (if prop = StringKey ''then'' then (Foreign JUndefined, target)
     else if reflectHas target prop then (reflectGet target prop, target)
     else
       (case prop of
          SymbolKey n \<Rightarrow> (reflectGet target prop, target)
        | StringKey name \<Rightarrow>
            (case operationIdToPath name of
               None \<Rightarrow> (Foreign JUndefined, target)
             | Some m \<Rightarrow>
                 let h = \<lparr>opId = name,
                          mapping = m,
                          upper = toUpperCase (op_method m),
                          applyParams = compilePathTemplate (joinPaths bp (path m))\<rparr>
                 in (HandlerFn h, target(prop \<mapsto> HandlerFn h)))))"

section \<open>Notions the properties are stated with\<close>







text \<open>A pattern matches a lookup: its regular expression accepts the pathname and its
  method table has an entry for the method.\<close>

definition patternHit :: "pattern \<Rightarrow> string \<Rightarrow> string \<Rightarrow> bool" where
  "patternHit p pathname m = (regex p pathname \<and> methods p m \<noteq> None)"

text \<open>
  The security map \<open>{ "/charge": { GET: ["APIKey"] }, "/{any}": { POST: ["OAuth2"] } }\<close>
  compiled: \<open>/charge\<close> goes to the exact index, \<open>/{any}\<close> becomes the regular expression
  \<open>^/[^/]+$\<close>, which accepts a slash followed by one or more characters other than a
  slash.
\<close>

definition singleSegment :: "string \<Rightarrow> bool" where
  "singleSegment s =
    (case s of
       [] \<Rightarrow> False
     | c # cs \<Rightarrow> c = CHR ''/'' \<and> cs \<noteq> [] \<and> CHR ''/'' \<notin> set cs)"

definition exampleCompiled :: compiled where
  "exampleCompiled =
    \<lparr>exact = [''/charge'' \<mapsto> [''GET'' \<mapsto> [''APIKey'']]],
     patterns = [\<lparr>regex = singleSegment, methods = [''POST'' \<mapsto> [''OAuth2'']]\<rparr>]\<rparr>"

text \<open>The verbs the transport has a method for.\<close>

definition supportedVerbs :: "string list" where
  "supportedVerbs = [''GET'', ''POST'', ''PUT'', ''PATCH'', ''DELETE'', ''HEAD'', ''OPTIONS'']"

text \<open>An operation map with a supported verb and one the transport has no method for.\<close>

definition exampleOperations :: "string \<rightharpoonup> operationMapping" where
  "exampleOperations =
    [''basic.getCharge'' \<mapsto> \<lparr>path = ''/charge'', op_method = ''GET''\<rparr>,
     ''legacy.trace'' \<mapsto> \<lparr>path = ''/charge/{id}'', op_method = ''trace''\<rparr>]"

text \<open>
  The own property \<open>k\<close> of the caller's \<open>params\<close>, when \<open>params\<close> is an object and has it.
\<close>

definition paramsProperty :: "(string \<times> jsval) list \<Rightarrow> string \<Rightarrow> jsval option" where
  "paramsProperty props k =
    (case map_of props ''params'' of
       Some (JObj kind ps) \<Rightarrow> map_of ps k
     | _ \<Rightarrow> None)"

text \<open>\<open>n\<close> calls of the token resolver in a row: their results and the final state.\<close>

fun resolveTimes ::
  "nat \<Rightarrow> runtime \<Rightarrow> basicAuth \<Rightarrow> tokenState \<Rightarrow> (error + string) list \<times> tokenState" where
  "resolveTimes 0 rt auth st = ([], st)"
| "resolveTimes (Suc n) rt auth st =
    (case resolveBasicToken rt auth st of
       (token, st') \<Rightarrow>
         (case resolveTimes n rt auth st' of
            (tokens, st'') \<Rightarrow> (token # tokens, st'')))"

text \<open>
  What encoding \<open>username:password\<close> gives in a runtime, the password defaulting to the
  empty string: the Base64 token, or the error of \<open>btoa\<close>; a runtime with no encoding
  routine yields the empty token.
\<close>

definition basicToken :: "runtime \<Rightarrow> basicAuth \<Rightarrow> error + string" where
  "basicToken rt auth =
    (let credentials =
           username auth @ codeUnits '':'' @ (case password auth of Some p \<Rightarrow> p | None \<Rightarrow> [])
     in case rt of
          WithBtoa \<Rightarrow> btoa credentials
        | WithBuffer \<Rightarrow> Inr (bufferBase64 credentials)
        | WithoutBase64 \<Rightarrow> Inr [])"

text \<open>Credentials with code units above \<open>0xFF\<close>: the user name is two CJK characters.\<close>

definition nonLatinAuth :: basicAuth where
  "nonLatinAuth = \<lparr>username = [0x65E5, 0x672C], password = None\<rparr>"

text \<open>A client with Basic credentials and a token supplier, and a request to it.\<close>

definition exampleCore :: core where
  "exampleCore =
    \<lparr>basePath = ''/api/v4'',
     basicAuth = Some \<lparr>username = codeUnits ''test_api_key'',
                       password = Some (codeUnits ''test_secret'')\<rparr>,
     getAccessToken = Some (Inr ''test_oauth_token_abc123''),
     authOverrides = Some [''/users'' \<mapsto> Basic],
     compiledSecurityMap = exampleCompiled,
     runtimeEnv = WithBtoa\<rparr>"

definition exampleRequest :: request where
  "exampleRequest =
    \<lparr>url_pathname = ''/api/v4/charge'',
     request_method = ''get'',
     headers = [(''authorization'', ''Custom token''), (''accept'', ''application/json'')]\<rparr>"

section \<open>Properties\<close>

subsection \<open>Webhook state mapping\<close>

text \<open>
  Claim C9. \<open>mapWebhookToOnlineState\<close> is total over strings: on every code of the fixed
  list of online webhook event codes it returns a state (never \<open>null\<close>), and on every
  string outside that list it returns \<open>null\<close>. The function has no raising branch and no
  default state: its only results are \<open>Some st\<close> and \<open>None\<close>.
\<close>

theorem mapWebhookToOnlineState_total:
  "(\<forall>code \<in> set onlineWebhookEventCodes. \<exists>st. mapWebhookToOnlineState code = Some st)
   \<and> (\<forall>s. s \<notin> set onlineWebhookEventCodes \<longrightarrow> mapWebhookToOnlineState s = None)"
proof (intro conjI ballI allI impI)
  fix code
  assume "code \<in> set onlineWebhookEventCodes"
  then show "\<exists>st. mapWebhookToOnlineState code = Some st"
    unfolding mapWebhookToOnlineState_def
    by (auto simp: onlineWebhookEventCodes_def onlineEventStateMap_def)
next
  fix s
  assume "s \<notin> set onlineWebhookEventCodes"
  then show "mapWebhookToOnlineState s = None"
    by (simp add: mapWebhookToOnlineState_def)
qed

theorem mapWebhookToOnlineState_total_witness:
  "''basic_tx.funds_refunded'' \<in> set onlineWebhookEventCodes
   \<and> (\<exists>st. mapWebhookToOnlineState ''basic_tx.funds_refunded'' = Some st)
   \<and> ''p2p_tx.joined'' \<notin> set onlineWebhookEventCodes
   \<and> mapWebhookToOnlineState ''p2p_tx.joined'' = None"
proof -
  have known: "''basic_tx.funds_refunded'' \<in> set onlineWebhookEventCodes"
    by (simp add: onlineWebhookEventCodes_def)
  have unknown: "''p2p_tx.joined'' \<notin> set onlineWebhookEventCodes"
    by (simp add: onlineWebhookEventCodes_def)
  from mapWebhookToOnlineState_total known
  have "\<exists>st. mapWebhookToOnlineState ''basic_tx.funds_refunded'' = Some st"
    by blast
  moreover from mapWebhookToOnlineState_total unknown
  have "mapWebhookToOnlineState ''p2p_tx.joined'' = None"
    by blast
  ultimately show ?thesis
    using known unknown by blast
qed

text \<open>
  Claim C10. The mapper of the standalone state-machine module and the mapper of the
  webhooks/state module return the same result on every string: the two modules list the
  same known codes and hold the same code-to-state table.
\<close>

theorem mapWebhookToTrustapState_eq_online:
  "mapWebhookToTrustapState s = mapWebhookToOnlineState s"
  unfolding mapWebhookToTrustapState_def mapWebhookToOnlineState_def
    trustapWebhookEventCodes_def onlineWebhookEventCodes_def
    trustapEventStateMap_def onlineEventStateMap_def
  by (rule refl)

subsection \<open>Path templates\<close>












lemma compilePathTemplate_undefined: "compilePathTemplate template JUndefined = Inr template"
  by (simp add: compilePathTemplate_def Let_def)






subsection \<open>Request options\<close>

text \<open>
  Claim C4. For every options object with an own \<open>query\<close> property, the normalized
  options are an object with no top-level \<open>query\<close> key, whose \<open>params\<close> holds the query:
  the caller's \<open>params.query\<close> when that is set, and the legacy top-level value only when
  it is not. The other properties of \<open>params\<close> and of the options are as the caller gave
  them.
\<close>

theorem normalize_folds_query:
  assumes "map_of props ''query'' = Some q"
  shows "\<exists>out nextParams.
           snd (normalizeRequestOptions (JObj kind props)) = JObj Plain out
         \<and> map_of out ''query'' = None
         \<and> map_of out ''params'' = Some (JObj Plain nextParams)
         \<and> map_of nextParams ''query'' =
             (case paramsProperty props ''query'' of
                None \<Rightarrow> Some q
              | Some pq \<Rightarrow> if pq = JUndefined then Some q else Some pq)
         \<and> (\<forall>k. k \<noteq> ''query'' \<longrightarrow> map_of nextParams k = paramsProperty props k)
         \<and> (\<forall>k. k \<noteq> ''query'' \<and> k \<noteq> ''params'' \<longrightarrow> map_of out k = map_of props k)"
proof -
  define ps where "ps = (case map_of props ''params'' of Some (JObj kd pp) \<Rightarrow> pp | _ \<Rightarrow> [])"
  have pp: "paramsProperty props k = map_of ps k" for k
    by (auto simp: paramsProperty_def ps_def split: option.splits jsval.splits)
  have params: "(if truthy (getProperty (JObj kind props) ''params'')
                    \<and> typeof (getProperty (JObj kind props) ''params'') = ''object''
                 then Some (spread (getProperty (JObj kind props) ''params''))
                 else None)
                = (case map_of props ''params'' of Some (JObj kd pp) \<Rightarrow> Some pp | _ \<Rightarrow> None)"
    by (auto simp: getProperty_def split: option.splits jsval.splits)
  define nextParams where
    "nextParams = (if getProperty (JObj Plain ps) ''query'' = JUndefined
                   then AList.update ''query'' q ps else ps)"
  define out where
    "out = AList.update ''params'' (JObj Plain nextParams) (AList.delete ''query'' props)"
  have res: "snd (normalizeRequestOptions (JObj kind props)) = JObj Plain out"
    using assms
    by (auto simp: normalizeRequestOptions_def Let_def hasOwnProperty_def params out_def
        nextParams_def ps_def getProperty_def split: option.splits jsval.splits)
  have "map_of out ''query'' = None"
    by (simp add: out_def update_conv' delete_conv')
  moreover have "map_of out ''params'' = Some (JObj Plain nextParams)"
    by (simp add: out_def update_conv')
  moreover have "map_of nextParams ''query'' =
             (case paramsProperty props ''query'' of
                None \<Rightarrow> Some q
              | Some pq \<Rightarrow> if pq = JUndefined then Some q else Some pq)"
    by (auto simp: pp nextParams_def getProperty_def update_conv' split: option.splits)
  moreover have "\<forall>k. k \<noteq> ''query'' \<longrightarrow> map_of nextParams k = paramsProperty props k"
    by (auto simp: pp nextParams_def update_conv')
  moreover have "\<forall>k. k \<noteq> ''query'' \<and> k \<noteq> ''params'' \<longrightarrow> map_of out k = map_of props k"
    by (auto simp: out_def update_conv' delete_conv')
  ultimately show ?thesis
    using res by blast
qed

theorem normalize_folds_query_witness:
  "map_of [(''query'', JObj Plain [(''price'', JNum ''1234'')]),
           (''params'', JObj Plain [(''query'', JObj Plain [(''currency'', JStr ''usd'')])])]
     ''query'' = Some (JObj Plain [(''price'', JNum ''1234'')])
   \<and> (\<exists>out nextParams.
         snd (normalizeRequestOptions
                (JObj Plain
                   [(''query'', JObj Plain [(''price'', JNum ''1234'')]),
                    (''params'', JObj Plain [(''query'', JObj Plain [(''currency'', JStr ''usd'')])])]))
           = JObj Plain out
         \<and> map_of out ''query'' = None
         \<and> map_of out ''params'' = Some (JObj Plain nextParams)
         \<and> map_of nextParams ''query'' = Some (JObj Plain [(''currency'', JStr ''usd'')]))
   \<and> (\<exists>out nextParams.
         snd (normalizeRequestOptions (JObj Plain [(''query'', JObj Plain [(''price'', JNum ''1234'')])]))
           = JObj Plain out
         \<and> map_of out ''query'' = None
         \<and> map_of out ''params'' = Some (JObj Plain nextParams)
         \<and> map_of nextParams ''query'' = Some (JObj Plain [(''price'', JNum ''1234'')]))"
proof -
  let ?legacy = "JObj Plain [(''price'', JNum ''1234'')]"
  let ?both = "[(''query'', ?legacy),
                (''params'', JObj Plain [(''query'', JObj Plain [(''currency'', JStr ''usd'')])])]"
  have own1: "map_of ?both ''query'' = Some ?legacy"
    by simp
  have own2: "map_of [(''query'', ?legacy)] ''query'' = Some ?legacy"
    by simp
  have pq1: "paramsProperty ?both ''query'' = Some (JObj Plain [(''currency'', JStr ''usd'')])"
    by (simp add: paramsProperty_def)
  have pq2: "paramsProperty [(''query'', ?legacy)] ''query'' = None"
    by (simp add: paramsProperty_def)
  from normalize_folds_query[OF own1, of Plain] pq1
  have a: "\<exists>out nextParams.
         snd (normalizeRequestOptions (JObj Plain ?both)) = JObj Plain out
         \<and> map_of out ''query'' = None
         \<and> map_of out ''params'' = Some (JObj Plain nextParams)
         \<and> map_of nextParams ''query'' = Some (JObj Plain [(''currency'', JStr ''usd'')])"
    by auto
  from normalize_folds_query[OF own2, of Plain] pq2
  have b: "\<exists>out nextParams.
         snd (normalizeRequestOptions (JObj Plain [(''query'', ?legacy)])) = JObj Plain out
         \<and> map_of out ''query'' = None
         \<and> map_of out ''params'' = Some (JObj Plain nextParams)
         \<and> map_of nextParams ''query'' = Some ?legacy"
    by auto
  from own1 a b show ?thesis
    by blast
qed

subsection \<open>Security lookup\<close>

lemma scanPatterns_first:
  assumes "i < length ps" and "patternHit (ps ! i) pathname m"
    and "\<forall>j < i. \<not> patternHit (ps ! j) pathname m"
  shows "scanPatterns ps pathname m = the (methods (ps ! i) m)"
  using assms
proof (induction ps arbitrary: i)
  case Nil
  then show ?case by simp
next
  case (Cons p ps)
  show ?case
  proof (cases i)
    case 0
    with Cons.prems show ?thesis
      by (auto simp: patternHit_def)
  next
    case (Suc k)
    with Cons.prems have "\<not> patternHit p pathname m"
      by auto
    then have skip: "scanPatterns (p # ps) pathname m = scanPatterns ps pathname m"
      by (auto simp: patternHit_def split: option.splits)
    from Cons.prems Suc have "k < length ps" "patternHit (ps ! k) pathname m"
      by auto
    moreover from Cons.prems(3) Suc have "\<forall>j < k. \<not> patternHit (ps ! j) pathname m"
      by auto
    ultimately have "scanPatterns ps pathname m = the (methods (ps ! k) m)"
      by (rule Cons.IH)
    with skip Suc show ?thesis
      by simp
  qed
qed

lemma scanPatterns_none:
  assumes "\<forall>i < length ps. \<not> patternHit (ps ! i) pathname m"
  shows "scanPatterns ps pathname m = []"
  using assms
proof (induction ps)
  case Nil
  then show ?case by simp
next
  case (Cons p ps)
  from Cons.prems have "\<not> patternHit p pathname m"
    by auto
  moreover from Cons.prems have "\<forall>i < length ps. \<not> patternHit (ps ! i) pathname m"
    by auto
  ultimately show ?case
    using Cons.IH by (auto simp: patternHit_def split: option.splits)
qed

text \<open>
  Claim C2, as amended. For every compiled security map, pathname and method: when the
  exact index has the pathname and its entry has the method, the lookup returns that
  method's scheme list. In every other case (the exact index lacks the pathname, or its
  entry lacks the method) the lookup scans the pattern list in declaration order and
  returns the method entry of the first pattern whose regular expression matches the
  pathname and whose method entry is present, an empty entry included; with no such
  pattern it returns the empty list.
\<close>

theorem resolveSecuritySchemes_lookup:
  "(\<forall>em schemes. exact c pathname = Some em \<and> em m = Some schemes \<longrightarrow>
        resolveSecuritySchemes c pathname m = schemes)
   \<and> ((exact c pathname = None \<or> (\<exists>em. exact c pathname = Some em \<and> em m = None)) \<longrightarrow>
        (\<forall>i < length (patterns c).
            patternHit (patterns c ! i) pathname m
            \<and> (\<forall>j < i. \<not> patternHit (patterns c ! j) pathname m) \<longrightarrow>
            resolveSecuritySchemes c pathname m = the (methods (patterns c ! i) m))
        \<and> ((\<forall>i < length (patterns c). \<not> patternHit (patterns c ! i) pathname m) \<longrightarrow>
            resolveSecuritySchemes c pathname m = []))"
proof (intro conjI allI impI)
  fix em schemes
  assume "exact c pathname = Some em \<and> em m = Some schemes"
  then show "resolveSecuritySchemes c pathname m = schemes"
    by (simp add: resolveSecuritySchemes_def)
next
  assume miss: "exact c pathname = None \<or> (\<exists>em. exact c pathname = Some em \<and> em m = None)"
  then have scan: "resolveSecuritySchemes c pathname m = scanPatterns (patterns c) pathname m"
    by (auto simp: resolveSecuritySchemes_def)
  {
    fix i
    assume "i < length (patterns c)"
      and "patternHit (patterns c ! i) pathname m
            \<and> (\<forall>j < i. \<not> patternHit (patterns c ! j) pathname m)"
    then show "resolveSecuritySchemes c pathname m = the (methods (patterns c ! i) m)"
      using scan scanPatterns_first by simp
  }
  {
    assume "\<forall>i < length (patterns c). \<not> patternHit (patterns c ! i) pathname m"
    then show "resolveSecuritySchemes c pathname m = []"
      using scan scanPatterns_none by simp
  }
qed

text \<open>
  The claim as the specification states it has the lookup return the empty list when the
  exact index has the pathname and its entry lacks the method. Here the exact index has
  \<open>/charge\<close>, with \<open>GET\<close> only; the lookup of \<open>POST\<close> goes on to the patterns and returns the
  schemes of \<open>/{any}\<close>.
\<close>

theorem exact_hit_method_absent_counterexample:
  "(\<exists>em. exact exampleCompiled ''/charge'' = Some em \<and> em ''POST'' = None)
   \<and> resolveSecuritySchemes exampleCompiled ''/charge'' ''POST'' = [''OAuth2'']
   \<and> resolveSecuritySchemes exampleCompiled ''/charge'' ''POST'' \<noteq> []"
  by (simp add: exampleCompiled_def resolveSecuritySchemes_def singleSegment_def)

theorem resolveSecuritySchemes_lookup_witness:
  "resolveSecuritySchemes exampleCompiled ''/charge'' ''GET'' = [''APIKey'']
   \<and> resolveSecuritySchemes exampleCompiled ''/users'' ''POST'' = [''OAuth2'']
   \<and> resolveSecuritySchemes exampleCompiled ''/users/7'' ''POST'' = []"
proof -
  have e1: "exact exampleCompiled ''/charge'' = Some [''GET'' \<mapsto> [''APIKey'']]
            \<and> [''GET'' \<mapsto> [''APIKey'']] ''GET'' = Some [''APIKey'']"
    by (simp add: exampleCompiled_def)
  have m2: "exact exampleCompiled ''/users'' = None" and m3: "exact exampleCompiled ''/users/7'' = None"
    by (simp_all add: exampleCompiled_def)
  have len: "0 < length (patterns exampleCompiled)"
    by (simp add: exampleCompiled_def)
  have hit: "patternHit (patterns exampleCompiled ! 0) ''/users'' ''POST''
             \<and> (\<forall>j < 0. \<not> patternHit (patterns exampleCompiled ! j) ''/users'' ''POST'')"
    by (simp add: exampleCompiled_def patternHit_def singleSegment_def)
  have nohit: "\<forall>i < length (patterns exampleCompiled).
                 \<not> patternHit (patterns exampleCompiled ! i) ''/users/7'' ''POST''"
    by (simp add: exampleCompiled_def patternHit_def singleSegment_def)
  from resolveSecuritySchemes_lookup[of exampleCompiled "''/charge''" "''GET''"] e1
  have r1: "resolveSecuritySchemes exampleCompiled ''/charge'' ''GET'' = [''APIKey'']"
    by blast
  from resolveSecuritySchemes_lookup[of exampleCompiled "''/users''" "''POST''"] m2 len hit
  have "resolveSecuritySchemes exampleCompiled ''/users'' ''POST''
          = the (methods (patterns exampleCompiled ! 0) ''POST'')"
    by blast
  then have r2: "resolveSecuritySchemes exampleCompiled ''/users'' ''POST'' = [''OAuth2'']"
    by (simp add: exampleCompiled_def)
  from resolveSecuritySchemes_lookup[of exampleCompiled "''/users/7''" "''POST''"] m3 nohit
  have r3: "resolveSecuritySchemes exampleCompiled ''/users/7'' ''POST'' = []"
    by blast
  from r1 r2 r3 show ?thesis
    by simp
qed

subsection \<open>Authentication\<close>

text \<open>
  Claim C3. Whatever the overrides, the security map and the credentials, the middleware
  returns a request that carries an Authorization header as it received it, and leaves
  the token cache alone; and a request it returns differs from the one it received only
  where there was no Authorization header, and then only by that header.
\<close>

theorem authorization_header_kept:
  assumes "authHeaderMiddleware c = Some mw"
  shows "(headersHas (headers request) ''Authorization'' \<longrightarrow> mw st request = (Inr request, st))
       \<and> (\<forall>request' st'. mw st request = (Inr request', st') \<longrightarrow>
             request' = request
             \<or> (\<not> headersHas (headers request) ''Authorization''
                \<and> (\<exists>v. request' = request\<lparr>headers := headersSet (headers request) ''Authorization'' v\<rparr>)))"
proof -
  from assms have mw: "mw = onRequest c"
    by (auto simp: authHeaderMiddleware_def split: if_splits)
  show ?thesis
    unfolding mw
    by (auto simp: onRequest_def Let_def split: if_splits option.splits sum.splits prod.splits)
qed

theorem authorization_header_kept_witness:
  "authHeaderMiddleware exampleCore
     = Some (onRequest exampleCore :: tokenState \<Rightarrow> request \<Rightarrow> (error + request) \<times> tokenState)
   \<and> headersHas (headers exampleRequest) ''Authorization''
   \<and> onRequest exampleCore initialTokenState exampleRequest = (Inr exampleRequest, initialTokenState)"
proof -
  have mw: "authHeaderMiddleware exampleCore
              = Some (onRequest exampleCore :: tokenState \<Rightarrow> request \<Rightarrow> (error + request) \<times> tokenState)"
    by (simp add: authHeaderMiddleware_def exampleCore_def)
  have has: "headersHas (headers exampleRequest) ''Authorization''"
    by (simp add: headersHas_def exampleRequest_def toLowerCase_def)
  from authorization_header_kept[OF mw, of exampleRequest initialTokenState] has
  have "onRequest exampleCore initialTokenState exampleRequest = (Inr exampleRequest, initialTokenState)"
    by blast
  with mw has show ?thesis
    by simp
qed




lemma resolveTimes_cached:
  "cached st = Some token \<Longrightarrow> resolveTimes n rt auth st = (replicate n (Inr token), st)"
  by (induction n) (auto simp: resolveBasicToken_def)

text \<open>
  Claim C8, as amended. For a client with Basic credentials, whatever the request path
  (the resolver takes none): a call of the token resolver that finds a cached token
  returns it and changes nothing, the encoding counter included; a call that finds none
  and returns a token returns the Base64 token for \<open>username:password\<close> (the password
  defaulting to the empty string), has called the encoding routine at most once and has
  cached the token, so that every later call, however many, returns the identical cached
  string without calling the encoding routine; a call in which the encoding routine
  raises (\<open>btoa\<close> on a code unit above \<open>0xFF\<close>) has called it once and caches nothing.
\<close>

theorem basic_token_cached:
  "(\<forall>token. cached st = Some token \<longrightarrow> resolveBasicToken rt auth st = (Inr token, st))
   \<and> (\<forall>token st'. cached st = None \<and> resolveBasicToken rt auth st = (Inr token, st') \<longrightarrow>
         basicToken rt auth = Inr token
         \<and> cached st' = Some token
         \<and> encodings st' \<le> Suc (encodings st)
         \<and> (\<forall>n. resolveTimes n rt auth st' = (replicate n (Inr token), st')))
   \<and> (\<forall>e st'. resolveBasicToken rt auth st = (Inl e, st') \<longrightarrow>
         basicToken rt auth = Inl e
         \<and> cached st = None \<and> cached st' = None
         \<and> encodings st' = Suc (encodings st))"
proof -
  have hit: "\<forall>token. cached st = Some token \<longrightarrow> resolveBasicToken rt auth st = (Inr token, st)"
    by (simp add: resolveBasicToken_def)
  have first: "\<forall>token st'. cached st = None \<and> resolveBasicToken rt auth st = (Inr token, st') \<longrightarrow>
         basicToken rt auth = Inr token
         \<and> cached st' = Some token
         \<and> encodings st' \<le> Suc (encodings st)
         \<and> (\<forall>n. resolveTimes n rt auth st' = (replicate n (Inr token), st'))"
  proof (intro allI impI)
    fix token st'
    assume a: "cached st = None \<and> resolveBasicToken rt auth st = (Inr token, st')"
    then have t: "basicToken rt auth = Inr token"
      by (cases rt) (auto simp: resolveBasicToken_def basicToken_def Let_def split: sum.splits)
    from a have c: "cached st' = Some token"
      by (cases rt) (auto simp: resolveBasicToken_def Let_def split: sum.splits)
    from a have e: "encodings st' \<le> Suc (encodings st)"
      by (cases rt) (auto simp: resolveBasicToken_def Let_def split: sum.splits)
    from c have "\<forall>n. resolveTimes n rt auth st' = (replicate n (Inr token), st')"
      by (simp add: resolveTimes_cached)
    with t c e show "basicToken rt auth = Inr token
         \<and> cached st' = Some token
         \<and> encodings st' \<le> Suc (encodings st)
         \<and> (\<forall>n. resolveTimes n rt auth st' = (replicate n (Inr token), st'))"
      by simp
  qed
  have raised: "\<forall>e st'. resolveBasicToken rt auth st = (Inl e, st') \<longrightarrow>
         basicToken rt auth = Inl e
         \<and> cached st = None \<and> cached st' = None
         \<and> encodings st' = Suc (encodings st)"
  proof (intro allI impI)
    fix e st'
    assume a: "resolveBasicToken rt auth st = (Inl e, st')"
    then have none: "cached st = None"
      by (cases "cached st") (auto simp: resolveBasicToken_def)
    from a none have "basicToken rt auth = Inl e"
      by (cases rt) (auto simp: resolveBasicToken_def basicToken_def Let_def split: sum.splits)
    moreover from a none have "cached st' = None"
      by (cases rt) (auto simp: resolveBasicToken_def Let_def split: sum.splits)
    moreover from a none have "encodings st' = Suc (encodings st)"
      by (cases rt) (auto simp: resolveBasicToken_def Let_def split: sum.splits)
    ultimately show "basicToken rt auth = Inl e
         \<and> cached st = None \<and> cached st' = None
         \<and> encodings st' = Suc (encodings st)"
      using none by simp
  qed
  from hit first raised show ?thesis
    by (intro conjI)
qed

text \<open>
  The claim as the specification states it has the encoding routine called at most once
  for a client. Here the user name holds code units above \<open>0xFF\<close> and the runtime has
  \<open>btoa\<close>: two calls of the resolver raise, each after calling \<open>btoa\<close>, and nothing is
  cached.
\<close>

theorem encoding_invoked_twice_counterexample:
  "fst (resolveTimes 2 WithBtoa nonLatinAuth initialTokenState)
     = [Inl InvalidCharacterError, Inl InvalidCharacterError]
   \<and> encodings (snd (resolveTimes 2 WithBtoa nonLatinAuth initialTokenState)) = 2
   \<and> cached (snd (resolveTimes 2 WithBtoa nonLatinAuth initialTokenState)) = None"
  by (simp add: numeral_2_eq_2 resolveBasicToken_def nonLatinAuth_def initialTokenState_def
      btoa_def codeUnits_def Let_def)

theorem basic_token_cached_witness:
  "cached initialTokenState = None
   \<and> (\<exists>st'. resolveBasicToken WithBtoa \<lparr>username = codeUnits ''user'', password = None\<rparr>
              initialTokenState = (Inr ''dXNlcjo='', st')
          \<and> cached st' = Some ''dXNlcjo=''
          \<and> encodings st' \<le> 1
          \<and> resolveTimes 3 WithBtoa \<lparr>username = codeUnits ''user'', password = None\<rparr> st'
              = ([Inr ''dXNlcjo='', Inr ''dXNlcjo='', Inr ''dXNlcjo=''], st'))"
proof -
  let ?auth = "\<lparr>username = codeUnits ''user'', password = None\<rparr>"
  have none: "cached initialTokenState = None"
    by (simp add: initialTokenState_def)
  have enc: "btoa (codeUnits ''user'' @ codeUnits '':'') = Inr ''dXNlcjo=''"
    by code_simp
  have first: "resolveBasicToken WithBtoa ?auth initialTokenState
                 = (Inr ''dXNlcjo='', \<lparr>cached = Some ''dXNlcjo='', encodings = 1\<rparr>)"
    by (simp add: resolveBasicToken_def initialTokenState_def enc)
  from basic_token_cached[of initialTokenState WithBtoa ?auth] none first
  have "cached \<lparr>cached = Some ''dXNlcjo='', encodings = 1\<rparr> = Some ''dXNlcjo=''
        \<and> encodings \<lparr>cached = Some ''dXNlcjo='', encodings = 1\<rparr> \<le> Suc (encodings initialTokenState)
        \<and> (\<forall>n. resolveTimes n WithBtoa ?auth \<lparr>cached = Some ''dXNlcjo='', encodings = 1\<rparr>
                  = (replicate n (Inr ''dXNlcjo=''), \<lparr>cached = Some ''dXNlcjo='', encodings = 1\<rparr>))"
    by blast
  then have "resolveTimes 3 WithBtoa ?auth \<lparr>cached = Some ''dXNlcjo='', encodings = 1\<rparr>
                  = (replicate 3 (Inr ''dXNlcjo=''), \<lparr>cached = Some ''dXNlcjo='', encodings = 1\<rparr>)"
    by blast
  then have "resolveTimes 3 WithBtoa ?auth \<lparr>cached = Some ''dXNlcjo='', encodings = 1\<rparr>
                  = ([Inr ''dXNlcjo='', Inr ''dXNlcjo='', Inr ''dXNlcjo=''],
                     \<lparr>cached = Some ''dXNlcjo='', encodings = 1\<rparr>)"
    by (simp only: numeral_3_eq_3 replicate.simps)
  with none first show ?thesis
    by (intro conjI exI[of _ "\<lparr>cached = Some ''dXNlcjo='', encodings = 1\<rparr>"]) simp_all
qed

subsection \<open>Operation dispatch\<close>

lemma invokeHandler_unsupported:
  assumes "upper h \<notin> set supportedVerbs"
  shows "\<exists>e. snd (invokeHandler h ro) = Inl e"
    and "applyParams h (pathParamsOf (snd (normalizeRequestOptions ro))) = Inr finalPath \<Longrightarrow>
         snd (invokeHandler h ro) =
           Inl (Error (''Unsupported method '' @ op_method (mapping h) @ '' for '' @ opId h))"
  using assms
  by (auto simp: invokeHandler_def supportedVerbs_def split: prod.splits sum.splits)

text \<open>
  Claim C1, as amended. For every operation id whose mapping carries a verb outside
  GET, POST, PUT, PATCH, DELETE, HEAD and OPTIONS, no property access raises. For the id
  \<open>then\<close> the access returns \<open>undefined\<close>; for an id the target has as a property, its own
  or inherited, the access returns the value held; in both cases no handler is built.
  Otherwise (the first access of the id) the access builds the handler, stores it and
  returns it. Every invocation of that handler raises and none reaches the transport:
  an invocation whose path substitution succeeds raises the error that names the verb
  and the operation id.
\<close>

theorem unsupported_verb_raised_by_handler:
  assumes "ops name = Some m" and "toUpperCase (op_method m) \<notin> set supportedVerbs"
  shows "(name = ''then'' \<longrightarrow>
            proxyGet ops bp target (StringKey name) = (Foreign JUndefined, target))
       \<and> (name \<noteq> ''then'' \<and> reflectHas target (StringKey name) \<longrightarrow>
            proxyGet ops bp target (StringKey name) = (reflectGet target (StringKey name), target))
       \<and> (name \<noteq> ''then'' \<and> \<not> reflectHas target (StringKey name) \<longrightarrow>
            (\<exists>h. proxyGet ops bp target (StringKey name)
                   = (HandlerFn h, target(StringKey name \<mapsto> HandlerFn h))
               \<and> (\<forall>ro. \<exists>e. snd (invokeHandler h ro) = Inl e)
               \<and> (\<forall>ro finalPath.
                     applyParams h (pathParamsOf (snd (normalizeRequestOptions ro))) = Inr finalPath
                     \<longrightarrow> snd (invokeHandler h ro) =
                           Inl (Error (''Unsupported method '' @ op_method m @ '' for '' @ name)))))"
proof (intro conjI impI)
  assume "name = ''then''"
  then show "proxyGet ops bp target (StringKey name) = (Foreign JUndefined, target)"
    by (simp add: proxyGet_def)
next
  assume "name \<noteq> ''then'' \<and> reflectHas target (StringKey name)"
  then show "proxyGet ops bp target (StringKey name) = (reflectGet target (StringKey name), target)"
    by (simp add: proxyGet_def)
next
  assume a: "name \<noteq> ''then'' \<and> \<not> reflectHas target (StringKey name)"
  define h where "h = \<lparr>opId = name, mapping = m, upper = toUpperCase (op_method m),
                       applyParams = compilePathTemplate (joinPaths bp (path m))\<rparr>"
  have get: "proxyGet ops bp target (StringKey name)
               = (HandlerFn h, target(StringKey name \<mapsto> HandlerFn h))"
    using assms(1) a by (simp add: proxyGet_def h_def Let_def)
  have up: "upper h \<notin> set supportedVerbs"
    using assms(2) by (simp add: h_def)
  have "\<forall>ro. \<exists>e. snd (invokeHandler h ro) = Inl e"
    using invokeHandler_unsupported(1)[OF up] by blast
  moreover have "\<forall>ro finalPath.
                 applyParams h (pathParamsOf (snd (normalizeRequestOptions ro))) = Inr finalPath \<longrightarrow>
                 snd (invokeHandler h ro) =
                   Inl (Error (''Unsupported method '' @ op_method m @ '' for '' @ name))"
    using invokeHandler_unsupported(2)[OF up] by (simp add: h_def)
  ultimately show "\<exists>h. proxyGet ops bp target (StringKey name)
                   = (HandlerFn h, target(StringKey name \<mapsto> HandlerFn h))
               \<and> (\<forall>ro. \<exists>e. snd (invokeHandler h ro) = Inl e)
               \<and> (\<forall>ro finalPath.
                     applyParams h (pathParamsOf (snd (normalizeRequestOptions ro))) = Inr finalPath
                     \<longrightarrow> snd (invokeHandler h ro) =
                           Inl (Error (''Unsupported method '' @ op_method m @ '' for '' @ name)))"
    using get by blast
qed

text \<open>
  The claim as the specification states it has the error raised by the property access
  and never by the call. Here the access to \<open>legacy.trace\<close>, whose verb is \<open>trace\<close>, returns
  a handler, and the call of that handler raises the error.
\<close>

theorem construction_time_error_counterexample:
  "(case fst (proxyGet exampleOperations ''/api/v4'' Map.empty (StringKey ''legacy.trace'')) of
      HandlerFn h \<Rightarrow>
        snd (invokeHandler h JUndefined) = Inl (Error ''Unsupported method trace for legacy.trace'')
    | Foreign v \<Rightarrow> False
    | Inherited n \<Rightarrow> False)"
  by (simp add: exampleOperations_def proxyGet_def reflectHas_def inherited_def
      objectPrototypeNames_def invokeHandler_def normalizeRequestOptions_def
      pathParamsOf_def getParams_def toUpperCase_def compilePathTemplate_undefined Let_def)

theorem unsupported_verb_raised_by_handler_witness:
  "exampleOperations ''legacy.trace'' = Some \<lparr>path = ''/charge/{id}'', op_method = ''trace''\<rparr>
   \<and> toUpperCase ''trace'' \<notin> set supportedVerbs
   \<and> \<not> reflectHas Map.empty (StringKey ''legacy.trace'')
   \<and> (\<exists>h. fst (proxyGet exampleOperations ''/api/v4'' Map.empty (StringKey ''legacy.trace''))
            = HandlerFn h
          \<and> snd (invokeHandler h JUndefined) =
              Inl (Error ''Unsupported method trace for legacy.trace''))
   \<and> reflectHas [StringKey ''legacy.trace'' \<mapsto> Foreign JNull] (StringKey ''legacy.trace'')
   \<and> proxyGet exampleOperations ''/api/v4'' [StringKey ''legacy.trace'' \<mapsto> Foreign JNull]
        (StringKey ''legacy.trace'')
       = (Foreign JNull, [StringKey ''legacy.trace'' \<mapsto> Foreign JNull])"
proof -
  let ?m = "\<lparr>path = ''/charge/{id}'', op_method = ''trace''\<rparr>"
  let ?held = "[StringKey ''legacy.trace'' \<mapsto> Foreign JNull]"
  have known: "exampleOperations ''legacy.trace'' = Some ?m"
    by (simp add: exampleOperations_def)
  have verb: "toUpperCase (op_method ?m) \<notin> set supportedVerbs"
    by (simp add: toUpperCase_def supportedVerbs_def)
  have fresh: "''legacy.trace'' \<noteq> ''then'' \<and> \<not> reflectHas Map.empty (StringKey ''legacy.trace'')"
    by (simp add: reflectHas_def inherited_def objectPrototypeNames_def)
  have held: "''legacy.trace'' \<noteq> ''then'' \<and> reflectHas ?held (StringKey ''legacy.trace'')"
    by (simp add: reflectHas_def)
  from unsupported_verb_raised_by_handler
         [where ops = exampleOperations and name = "''legacy.trace''" and target = Map.empty
            and bp = "''/api/v4''", OF known verb] fresh
  obtain h where
    get: "proxyGet exampleOperations ''/api/v4'' Map.empty (StringKey ''legacy.trace'')
            = (HandlerFn h, [StringKey ''legacy.trace'' \<mapsto> HandlerFn h])"
    and deferred: "\<And>ro finalPath.
        applyParams h (pathParamsOf (snd (normalizeRequestOptions ro))) = Inr finalPath \<Longrightarrow>
        snd (invokeHandler h ro) =
          Inl (Error (''Unsupported method '' @ op_method ?m @ '' for '' @ ''legacy.trace''))"
    by blast
  from get have h: "h = \<lparr>opId = ''legacy.trace'', mapping = ?m,
      upper = toUpperCase ''trace'',
      applyParams = compilePathTemplate (joinPaths ''/api/v4'' ''/charge/{id}'')\<rparr>"
    by (simp add: proxyGet_def exampleOperations_def Let_def reflectHas_def inherited_def
        objectPrototypeNames_def)
  have "applyParams h (pathParamsOf (snd (normalizeRequestOptions JUndefined)))
          = Inr (joinPaths ''/api/v4'' ''/charge/{id}'')"
    by (simp add: h normalizeRequestOptions_def pathParamsOf_def getParams_def
        compilePathTemplate_undefined)
  from deferred[OF this]
  have call: "snd (invokeHandler h JUndefined) = Inl (Error ''Unsupported method trace for legacy.trace'')"
    by simp
  from unsupported_verb_raised_by_handler
         [where ops = exampleOperations and name = "''legacy.trace''" and target = ?held
            and bp = "''/api/v4''", OF known verb] held
  have "proxyGet exampleOperations ''/api/v4'' ?held (StringKey ''legacy.trace'')
          = (reflectGet ?held (StringKey ''legacy.trace''), ?held)"
    by blast
  then have existing: "proxyGet exampleOperations ''/api/v4'' ?held (StringKey ''legacy.trace'')
          = (Foreign JNull, ?held)"
    by (simp add: reflectGet_def)
  from get call have "\<exists>h. fst (proxyGet exampleOperations ''/api/v4'' Map.empty (StringKey ''legacy.trace''))
            = HandlerFn h
          \<and> snd (invokeHandler h JUndefined) =
              Inl (Error ''Unsupported method trace for legacy.trace'')"
    by simp
  with known verb fresh held existing show ?thesis
    by simp
qed

text \<open>
  Claim C7, as amended. For every string property name that is not a known operation
  id and that the proxy target does not have, as an own property (a key populated on the
  merged client object) or as a property inherited from \<open>Object.prototype\<close>, reading the
  property yields \<open>undefined\<close> and leaves the target as it was. A name inherited from
  \<open>Object.prototype\<close> (\<open>constructor\<close>, \<open>toString\<close>, ...) that the target does not hold itself
  yields the inherited value. The \<open>get\<close> trap returns a value on every key: it has no
  raising branch.
\<close>

theorem unknown_operation_undefined:
  "(ops name = None \<and> \<not> reflectHas target (StringKey name) \<longrightarrow>
      proxyGet ops bp target (StringKey name) = (Foreign JUndefined, target))
   \<and> (name \<in> set objectPrototypeNames \<and> target (StringKey name) = None \<longrightarrow>
      proxyGet ops bp target (StringKey name) = (Inherited name, target))"
  by (auto simp: proxyGet_def reflectHas_def reflectGet_def inherited_def objectPrototypeNames_def)

text \<open>
  The claim as the specification states it has \<open>undefined\<close> for every name that is neither
  an operation id nor populated on the merged client. Here \<open>constructor\<close> is neither, and
  the read yields the function inherited from \<open>Object.prototype\<close>.
\<close>

theorem inherited_name_counterexample:
  "exampleOperations ''constructor'' = None
   \<and> [StringKey ''raw'' \<mapsto> Foreign (JObj Plain [])] (StringKey ''constructor'') = None
   \<and> fst (proxyGet exampleOperations ''/api/v4'' [StringKey ''raw'' \<mapsto> Foreign (JObj Plain [])]
            (StringKey ''constructor'')) = Inherited ''constructor''
   \<and> fst (proxyGet exampleOperations ''/api/v4'' [StringKey ''raw'' \<mapsto> Foreign (JObj Plain [])]
            (StringKey ''constructor'')) \<noteq> Foreign JUndefined"
  by (simp add: exampleOperations_def proxyGet_def reflectHas_def reflectGet_def inherited_def
      objectPrototypeNames_def)

theorem unknown_operation_undefined_witness:
  "exampleOperations ''no.such.op'' = None
   \<and> \<not> reflectHas [StringKey ''raw'' \<mapsto> Foreign (JObj Plain [])] (StringKey ''no.such.op'')
   \<and> proxyGet exampleOperations ''/api/v4'' [StringKey ''raw'' \<mapsto> Foreign (JObj Plain [])]
       (StringKey ''no.such.op'')
     = (Foreign JUndefined, [StringKey ''raw'' \<mapsto> Foreign (JObj Plain [])])
   \<and> ''toString'' \<in> set objectPrototypeNames
   \<and> proxyGet exampleOperations ''/api/v4'' [StringKey ''raw'' \<mapsto> Foreign (JObj Plain [])]
       (StringKey ''toString'')
     = (Inherited ''toString'', [StringKey ''raw'' \<mapsto> Foreign (JObj Plain [])])"
proof -
  let ?target = "[StringKey ''raw'' \<mapsto> Foreign (JObj Plain [])]"
  have unknown: "exampleOperations ''no.such.op'' = None"
    by (simp add: exampleOperations_def)
  have fresh: "\<not> reflectHas ?target (StringKey ''no.such.op'')"
    by (simp add: reflectHas_def inherited_def objectPrototypeNames_def)
  have inh: "''toString'' \<in> set objectPrototypeNames"
    by (simp add: objectPrototypeNames_def)
  have notown: "?target (StringKey ''toString'') = None"
    by simp
  from unknown_operation_undefined
         [where ops = exampleOperations and name = "''no.such.op''" and bp = "''/api/v4''"
            and target = ?target] unknown fresh
  have a: "proxyGet exampleOperations ''/api/v4'' ?target (StringKey ''no.such.op'')
             = (Foreign JUndefined, ?target)"
    by blast
  from unknown_operation_undefined
         [where ops = exampleOperations and name = "''toString''" and bp = "''/api/v4''"
            and target = ?target] inh notown
  have b: "proxyGet exampleOperations ''/api/v4'' ?target (StringKey ''toString'')
             = (Inherited ''toString'', ?target)"
    by blast
  from unknown fresh a inh b show ?thesis
    by blast
qed

end
